theory Spec2Isabelle
  imports Complex_Main "HOL-Library.Monad_Syntax"
begin

section \<open>Property modifiers of BurnMan (burnman/eos/property\_modifiers.py)\<close>

text \<open>
  The module computes excess contributions to the Gibbs energy of a mineral endmember
  (and to its first and second derivatives in pressure and temperature) and folds
  them into the mineral's properties.

  Numbers: the Python floats of the source are embedded as the real numbers, so the
  theorems below are statements about the formulas of the code, not about the rounding
  of IEEE arithmetic; the one property that rounding decides, the identity law of the
  compositor, is also stated on the compositor with every operation rounded to a
  double. Where a Python operation has no real value, the model has no
  value either: a call that raises (KeyError, TypeError, IndexError,
  ZeroDivisionError) and a NumPy function applied outside its real domain (which
  yields nan or an infinity) both give \<open>None\<close>.
\<close>

subsection \<open>Parameter sets and excess records\<close>

text \<open>
  A parameter set is a Python dict from key strings to numbers or short sequences of
  numbers. An excess dict always carries the same six keys and is a record.
\<close>

datatype pval = Num real | Seq "real list"

type_synonym param_set = "string \<rightharpoonup> pval"

record excesses =
  G :: real
  dGdT :: real
  dGdP :: real
  d2GdT2 :: real
  d2GdP2 :: real
  d2GdPdT :: real

text \<open>\<open>params[k]\<close> used as a number, and \<open>params[k][i]\<close>.\<close>

definition num :: "param_set \<Rightarrow> string \<Rightarrow> real option" where
  "num prm k = (case prm k of Some (Num x) \<Rightarrow> Some x | _ \<Rightarrow> None)"

definition item :: "param_set \<Rightarrow> string \<Rightarrow> nat \<Rightarrow> real option" where
  "item prm k i =
     (case prm k of
        Some (Seq xs) \<Rightarrow> if i < length xs then Some (xs ! i) else None
      | _ \<Rightarrow> None)"

subsection \<open>Partial arithmetic\<close>

text \<open>
  Python's float division raises ZeroDivisionError on a zero divisor. \<open>np.sqrt\<close>,
  \<open>np.log\<close> and \<open>np.power(x, 0.25)\<close> leave the reals outside their domain.
\<close>

definition fdiv :: "real \<Rightarrow> real \<Rightarrow> real option" where
  "fdiv a b = (if b = 0 then None else Some (a / b))"

definition np_sqrt :: "real \<Rightarrow> real option" where
  "np_sqrt x = (if x < 0 then None else Some (sqrt x))"

definition np_log :: "real \<Rightarrow> real option" where
  "np_log x = (if x \<le> 0 then None else Some (ln x))"

definition np_power_quarter :: "real \<Rightarrow> real option" where
  "np_power_quarter x = (if x < 0 then None else Some (root 4 x))"

subsection \<open>Tricritical Landau correction\<close>

text \<open>
  The critical temperature at pressure, and the three expressions of the
  \<open>temperature < Tc\<close> branch that have a counterpart in the other branch
  (the lines assigning \<open>G\<close>, \<open>dGdP\<close> and \<open>dGdT\<close>), as functions of the local
  variables they read. They are evaluated only where \<open>Tc\<close> is not zero.
\<close>

definition landau_Tc :: "real \<Rightarrow> param_set \<Rightarrow> real option" where
  "landau_Tc pressure prm = do {
     Tc_0 \<leftarrow> num prm ''Tc_0'';
     V_D \<leftarrow> num prm ''V_D'';
     S_D \<leftarrow> num prm ''S_D'';
     t \<leftarrow> fdiv (V_D * pressure) S_D;
     Some (Tc_0 + t)
   }"

definition landau_G_ordered :: "real \<Rightarrow> real \<Rightarrow> real \<Rightarrow> real \<Rightarrow> real \<Rightarrow> real \<Rightarrow> real" where
  "landau_G_ordered S_D Tc_0 Tc temperature Q2 G_disordered =
     S_D * ((temperature - Tc) * Q2 + Tc_0 * Q2 * Q2 * Q2 / 3) - G_disordered"

definition landau_dGdP_ordered :: "real \<Rightarrow> real \<Rightarrow> real \<Rightarrow> real \<Rightarrow> real \<Rightarrow> real \<Rightarrow> real" where
  "landau_dGdP_ordered V_D Tc_0 Tc temperature Q2 dGdP_disordered =
     - V_D * Q2 * (1 + 0.5 * temperature / Tc * (1 - Tc_0 / Tc)) - dGdP_disordered"

definition landau_dGdT_ordered :: "real \<Rightarrow> real \<Rightarrow> real \<Rightarrow> real \<Rightarrow> real \<Rightarrow> real" where
  "landau_dGdT_ordered S_D Tc_0 Tc Q2 dGdT_disordered =
     S_D * Q2 * (1.5 - 0.5 * Tc_0 / Tc) - dGdT_disordered"

definition landau_excesses :: "real \<Rightarrow> real \<Rightarrow> param_set \<Rightarrow> excesses option" where
  "landau_excesses pressure temperature prm = do {
     Tc \<leftarrow> landau_Tc pressure prm;
     Tc_0 \<leftarrow> num prm ''Tc_0'';
     V_D \<leftarrow> num prm ''V_D'';
     S_D \<leftarrow> num prm ''S_D'';
     let G_disordered = S_D * ((temperature - Tc) + Tc_0 / 3);
     let dGdT_disordered = S_D;
     let dGdP_disordered = - V_D;
     if temperature < Tc then do {
       r \<leftarrow> fdiv temperature Tc;
       Q2 \<leftarrow> np_sqrt (1 - r);
       a \<leftarrow> fdiv (V_D * V_D * temperature) (S_D * Tc * Tc * Q2);
       b \<leftarrow> fdiv (- S_D) (Tc * Q2);
       c \<leftarrow> fdiv V_D (2 * Tc * Q2);
       Some \<lparr> G = landau_G_ordered S_D Tc_0 Tc temperature Q2 G_disordered,
              dGdT = landau_dGdT_ordered S_D Tc_0 Tc Q2 dGdT_disordered,
              dGdP = landau_dGdP_ordered V_D Tc_0 Tc temperature Q2 dGdP_disordered,
              d2GdT2 = b * (0.75 - 0.25 * Tc_0 / Tc),
              d2GdP2 = a * (temperature * (1 + Tc_0 / Tc) / (4 * Tc)
                            + Q2 * Q2 * (1 - Tc_0 / Tc) - 1),
              d2GdPdT = c * (1 + (temperature / (2 * Tc) - Q2 * Q2) * (1 - Tc_0 / Tc)) \<rparr>
     } else
       Some \<lparr> G = - G_disordered,
              dGdT = - dGdT_disordered,
              dGdP = - dGdP_disordered,
              d2GdT2 = 0, d2GdP2 = 0, d2GdPdT = 0 \<rparr>
   }"

subsection \<open>Holland-Powell Landau correction\<close>

text \<open>The order parameter at the reference state and at the current state.\<close>

definition landau_hp_Q_0 :: "real \<Rightarrow> real \<Rightarrow> real option" where
  "landau_hp_Q_0 T_0 Tc_0 =
     (if T_0 < Tc_0 then do { r \<leftarrow> fdiv (Tc_0 - T_0) Tc_0; np_power_quarter r }
      else Some 0)"

definition landau_hp_Tc :: "real \<Rightarrow> real \<Rightarrow> param_set \<Rightarrow> real option" where
  "landau_hp_Tc P P_0 prm = do {
     Tc_0 \<leftarrow> num prm ''Tc_0'';
     V_D \<leftarrow> num prm ''V_D'';
     S_D \<leftarrow> num prm ''S_D'';
     t \<leftarrow> fdiv (V_D * (P - P_0)) S_D;
     Some (Tc_0 + t)
   }"

definition landau_hp_Q :: "real \<Rightarrow> real \<Rightarrow> real \<Rightarrow> real option" where
  "landau_hp_Q T Tc Tc_0 =
     (if T < Tc then do { r \<leftarrow> fdiv (Tc - T) Tc_0; np_power_quarter r }
      else Some 0)"

definition landau_hp_excesses ::
  "real \<Rightarrow> real \<Rightarrow> real \<Rightarrow> real \<Rightarrow> param_set \<Rightarrow> excesses option" where
  "landau_hp_excesses P T P_0 T_0 prm = do {
     Tc_0 \<leftarrow> num prm ''Tc_0'';
     Q_0 \<leftarrow> landau_hp_Q_0 T_0 Tc_0;
     Tc \<leftarrow> landau_hp_Tc P P_0 prm;
     V_D \<leftarrow> num prm ''V_D'';
     S_D \<leftarrow> num prm ''S_D'';
     Q \<leftarrow> landau_hp_Q T Tc Tc_0;
     let G' = Tc_0 * S_D * (Q_0 * Q_0 - Q_0 ^ 6 / 3)
              - S_D * (Tc * Q * Q - Tc_0 * Q ^ 6 / 3)
              - T * S_D * (Q_0 * Q_0 - Q * Q) + (P - P_0) * V_D * Q_0 * Q_0;
     let dGdT' = S_D * (Q * Q - Q_0 * Q_0);
     let dGdP' = - V_D * (Q * Q - Q_0 * Q_0);
     if Q > 1 / 10 ^ 12 then do {
       a \<leftarrow> fdiv (- S_D) (2 * Tc_0 * Q * Q);
       b \<leftarrow> fdiv (- V_D * V_D) (2 * S_D * Tc_0 * Q * Q);
       c \<leftarrow> fdiv V_D (2 * Tc_0 * Q * Q);
       Some \<lparr> G = G', dGdT = dGdT', dGdP = dGdP',
              d2GdT2 = a, d2GdP2 = b, d2GdPdT = c \<rparr>
     } else
       Some \<lparr> G = G', dGdT = dGdT', dGdP = dGdP',
              d2GdT2 = 0, d2GdP2 = 0, d2GdPdT = 0 \<rparr>
   }"

subsection \<open>Linear (DQF) correction\<close>

definition dqf_excesses :: "real \<Rightarrow> real \<Rightarrow> param_set \<Rightarrow> excesses option" where
  "dqf_excesses pressure temperature prm = do {
     h \<leftarrow> num prm ''H'';
     s \<leftarrow> num prm ''S'';
     v \<leftarrow> num prm ''V'';
     Some \<lparr> G = h - temperature * s + pressure * v,
            dGdT = - s,
            dGdP = v,
            d2GdT2 = 0, d2GdP2 = 0, d2GdPdT = 0 \<rparr>
   }"

subsection \<open>Bragg-Williams order-disorder correction\<close>

text \<open>
  The gas constant is imported from \<open>burnman.constants\<close> and the root finder is
  \<open>scipy.optimize.fsolve\<close>; both are parameters of the model. Called as the source
  calls it (without \<open>full_output\<close>), \<open>fsolve\<close> hands back only the array of the
  last iterate: when its status flag reports a solution, and also when the iteration
  budget is spent or the iteration makes no progress (it then issues a
  RuntimeWarning). It raises on improper input, and an exception of the residual
  function passes through it.
\<close>

datatype root_result = Solution real | LastIterate real | SolverError

type_synonym root_finder = "(real \<Rightarrow> real option) \<Rightarrow> real \<Rightarrow> root_result"

text \<open>The value of \<open>opt.fsolve(...)[0]\<close>: the caller sees the iterate and no status.\<close>

definition returned_iterate :: "root_result \<Rightarrow> real option" where
  "returned_iterate r =
     (case r of Solution q \<Rightarrow> Some q | LastIterate q \<Rightarrow> Some q | SolverError \<Rightarrow> None)"

definition lnxord :: "real \<Rightarrow> real \<Rightarrow> real option" where
  "lnxord n Q = do {
     l1 \<leftarrow> np_log (1 + n * Q);
     l2 \<leftarrow> np_log (n + Q);
     l3 \<leftarrow> np_log (1 + n);
     Some (l1 + n * l2 - (1 + n) * l3)
   }"

definition lnxdisord :: "real \<Rightarrow> real \<Rightarrow> real option" where
  "lnxdisord n Q = do {
     a \<leftarrow> fdiv 1 (1 + n);
     l1 \<leftarrow> np_log (1 + n * Q);
     b \<leftarrow> fdiv n (1 + n);
     l2 \<leftarrow> np_log (1 - Q);
     l3 \<leftarrow> np_log (n * (1 - Q));
     c \<leftarrow> fdiv (n * n) (1 + n);
     l4 \<leftarrow> np_log (n + Q);
     l5 \<leftarrow> np_log n;
     Some (a * l1 + b * l2 + b * l3 + c * l4 - n * l5)
   }"

definition reaction_bragg_williams ::
  "real \<Rightarrow> real \<Rightarrow> real \<Rightarrow> real \<Rightarrow> real \<Rightarrow> real \<Rightarrow> real \<Rightarrow> real option" where
  "reaction_bragg_williams R Q gibbs_disorder temperature n f W = do {
     let Q' = (if Q > 1 then 0.9 else Q);
     d \<leftarrow> lnxdisord n Q';
     or \<leftarrow> lnxord n Q';
     Some (gibbs_disorder + (2 * Q' - 1) * W + f * R * temperature * (d - or))
   }"

definition order_gibbs ::
  "real \<Rightarrow> root_finder \<Rightarrow> real \<Rightarrow> real \<Rightarrow> real \<Rightarrow> real \<Rightarrow> real \<Rightarrow> param_set
   \<Rightarrow> (real \<times> real) option" where
  "order_gibbs R fsolve n f deltaS pressure temperature prm = do {
     Wh \<leftarrow> num prm ''Wh'';
     Wv \<leftarrow> num prm ''Wv'';
     let W = Wh + pressure * Wv;
     deltaH \<leftarrow> num prm ''deltaH'';
     deltaV \<leftarrow> num prm ''deltaV'';
     let gibbs_disorder = deltaH - f * temperature * deltaS + pressure * deltaV;
     Q \<leftarrow> returned_iterate
            (fsolve (\<lambda>Q. reaction_bragg_williams R Q gibbs_disorder temperature n f W)
                    0.999995);
     d \<leftarrow> lnxdisord n Q;
     or \<leftarrow> lnxord n Q;
     Some (Q, (1 - Q) * (gibbs_disorder + f * R * temperature * d)
              + f * Q * (R * temperature * or) + (1 - Q) * Q * W)
   }"

definition bragg_williams_excesses ::
  "real \<Rightarrow> root_finder \<Rightarrow> real \<Rightarrow> real \<Rightarrow> param_set \<Rightarrow> excesses option" where
  "bragg_williams_excesses gas_constant fsolve pressure temperature prm = do {
     let R = gas_constant;
     n \<leftarrow> num prm ''n'';
     f \<leftarrow> num prm ''factor'';
     l1 \<leftarrow> np_log (1 + n);
     l2 \<leftarrow> np_log n;
     let deltaS = gas_constant * ((1 + n) * l1 - n * l2);
     let dT = 1;
     let dP = 1000;
     (Q, G') \<leftarrow> order_gibbs R fsolve n f deltaS pressure temperature prm;
     (Q, GsubPsubT) \<leftarrow> order_gibbs R fsolve n f deltaS (pressure - dP) (temperature - dT) prm;
     (Q, GsubPaddT) \<leftarrow> order_gibbs R fsolve n f deltaS (pressure - dP) (temperature + dT) prm;
     (Q, GaddPsubT) \<leftarrow> order_gibbs R fsolve n f deltaS (pressure + dP) (temperature - dT) prm;
     (Q, GaddPaddT) \<leftarrow> order_gibbs R fsolve n f deltaS (pressure + dP) (temperature + dT) prm;
     (Q, GsubP) \<leftarrow> order_gibbs R fsolve n f deltaS (pressure - dP) temperature prm;
     (Q, GaddP) \<leftarrow> order_gibbs R fsolve n f deltaS (pressure + dP) temperature prm;
     (Q, GsubT) \<leftarrow> order_gibbs R fsolve n f deltaS pressure (temperature - dT) prm;
     (Q, GaddT) \<leftarrow> order_gibbs R fsolve n f deltaS pressure (temperature + dT) prm;
     Some \<lparr> G = G',
            dGdT = (GaddT - GsubT) / (2 * dT),
            dGdP = (GaddP - GsubP) / (2 * dP),
            d2GdT2 = (GaddT + GsubT - 2 * G') / (dT * dT),
            d2GdP2 = (GaddP + GsubP - 2 * G') / (dP * dP),
            d2GdPdT = (GaddPaddT - GsubPaddT - GaddPsubT + GsubPsubT) / (4 * dT * dP) \<rparr>
   }"

subsection \<open>Magnetic (Chin-Hertzman-Sundman) correction\<close>

text \<open>
  \<open>np.power(tau, k)\<close> with a positive whole \<open>k\<close> is a power; with a negative whole
  \<open>k\<close> it is read only where \<open>1 \<le> tau\<close>, and is the reciprocal of a power.
\<close>

definition magnetic_excesses_chs ::
  "real \<Rightarrow> real \<Rightarrow> real \<Rightarrow> param_set \<Rightarrow> excesses option" where
  "magnetic_excesses_chs gas_constant pressure temperature prm = do {
     structural_parameter \<leftarrow> num prm ''structural_parameter'';
     ct0 \<leftarrow> item prm ''curie_temperature'' 0;
     ct1 \<leftarrow> item prm ''curie_temperature'' 1;
     let curie_temperature = ct0 + pressure * ct1;
     tau \<leftarrow> fdiv temperature curie_temperature;
     dtaudT \<leftarrow> fdiv 1 curie_temperature;
     dtaudP \<leftarrow> fdiv (- (temperature * ct1)) (curie_temperature * curie_temperature);
     d2taudPdT \<leftarrow> fdiv ct1 (curie_temperature * curie_temperature);
     d2taudP2 \<leftarrow> fdiv (2 * temperature * ct1 * ct1)
                     (curie_temperature * curie_temperature * curie_temperature);
     mm0 \<leftarrow> item prm ''magnetic_moment'' 0;
     mm1 \<leftarrow> item prm ''magnetic_moment'' 1;
     let magnetic_moment = mm0 + pressure * mm1;
     let dmagnetic_momentdP = mm1;
     s \<leftarrow> fdiv 1 structural_parameter;
     let A = 518 / 1125 + (11692 / 15975) * (s - 1);
     rA \<leftarrow> fdiv 1 A;
     (f, dfdtau, d2fdtau2) \<leftarrow>
       (if tau < 1 then do {
          t1 \<leftarrow> fdiv 79 (140 * structural_parameter * tau);
          t2 \<leftarrow> fdiv (- 79) (140 * structural_parameter * tau * tau);
          t3 \<leftarrow> fdiv (2 * 79) (140 * structural_parameter * tau ^ 3);
          Some (1 - rA * (t1 + (474 / 497) * (s - 1)
                               * (tau ^ 3 / 6 + tau ^ 9 / 135 + tau ^ 15 / 600)),
                - rA * (t2 + (474 / 497) * (s - 1)
                             * (tau * tau / 2 + tau ^ 8 / 15 + tau ^ 14 / 40)),
                - rA * (t3 + (474 / 497) * (s - 1)
                             * (tau + 8 * tau ^ 7 / 15 + 14 * tau ^ 13 / 40)))
        } else
          Some (- rA * ((1 / tau ^ 5) / 10 + (1 / tau ^ 15) / 315 + (1 / tau ^ 25) / 1500),
                rA * ((1 / tau ^ 6) / 2 + (1 / tau ^ 16) / 21 + (1 / tau ^ 26) / 60),
                - rA * (6 * (1 / tau ^ 7) / 2 + 16 * (1 / tau ^ 17) / 21
                        + 26 * (1 / tau ^ 27) / 60)));
     let dfdT = dfdtau * dtaudT;
     let d2fdT2 = d2fdtau2 * dtaudT * dtaudT;
     let dfdP = dfdtau * dtaudP;
     let d2fdP2 = d2fdtau2 * dtaudP * dtaudP + dfdtau * d2taudP2;
     let d2fdPdT = d2fdtau2 * dtaudT * dtaudP - dfdtau * d2taudPdT;
     lm \<leftarrow> np_log (magnetic_moment + 1);
     let G' = gas_constant * temperature * lm * f;
     let dGdT' = gas_constant * lm * (f + temperature * dfdT);
     let d2GdT2' = gas_constant * lm * (2 * dfdT + temperature * d2fdT2);
     q \<leftarrow> fdiv dmagnetic_momentdP (magnetic_moment + 1);
     let dGdP' = gas_constant * temperature * (f * q + dfdP * lm);
     let d2GdP2' = gas_constant * temperature
                    * (- f * q ^ 2 + 2 * dfdP * q + d2fdP2 * lm);
     u \<leftarrow> fdiv dGdP' temperature;
     let d2GdPdT' = u + gas_constant * temperature * lm * d2fdPdT
                      + gas_constant * temperature * q * dfdT;
     Some \<lparr> G = G', dGdT = dGdT', dGdP = dGdP',
            d2GdT2 = d2GdT2', d2GdP2 = d2GdP2', d2GdPdT = d2GdPdT' \<rparr>
   }"

subsection \<open>The mineral and the compositor\<close>

text \<open>
  The attributes of the mineral object that the module reads or writes. The compositor
  assigns them one after the other; when a division raises, the assignments made
  before it stay, so the state at the raise is part of the outcome.
\<close>

record mineral =
  pressure :: real
  temperature :: real
  gibbs :: real
  C_p :: real
  K_T :: real
  alpha :: real
  S :: real
  V :: real
  H :: real
  helmholtz :: real
  C_v :: real
  gr :: real
  K_S :: real
  property_modifiers :: "(string \<times> param_set) list"
  params :: param_set

datatype outcome = Returned mineral | Raised mineral

fun state_of :: "outcome \<Rightarrow> mineral" where
  "state_of (Returned m) = m"
| "state_of (Raised m) = m"

fun has_raised :: "outcome \<Rightarrow> bool" where
  "has_raised (Returned m) = False"
| "has_raised (Raised m) = True"

definition modify_properties :: "mineral \<Rightarrow> excesses \<Rightarrow> outcome" where
  "modify_properties m0 ex =
     (let m1 = m0\<lparr>gibbs := gibbs m0 + G ex\<rparr>;
          m2 = m1\<lparr>C_p := C_p m1 - temperature m1 * d2GdT2 ex\<rparr>
      in if K_T m2 = 0 \<or> d2GdP2 ex - V m2 / K_T m2 = 0 then Raised m2 else
      let m3 = m2\<lparr>K_T := - (V m2 + dGdP ex) / (d2GdP2 ex - V m2 / K_T m2)\<rparr>
      in if V m3 + dGdP ex = 0 then Raised m3 else
      let m4 = m3\<lparr>alpha := (alpha m3 * V m3 + d2GdPdT ex) / (V m3 + dGdP ex)\<rparr>;
          m5 = m4\<lparr>S := S m4 - dGdT ex\<rparr>;
          m6 = m5\<lparr>V := V m5 + dGdP ex\<rparr>;
          m7 = m6\<lparr>H := gibbs m6 + temperature m6 * S m6\<rparr>;
          m8 = m7\<lparr>helmholtz := gibbs m7 - pressure m7 * V m7\<rparr>;
          m9 = m8\<lparr>C_v := C_p m8 - V m8 * temperature m8 * alpha m8 * alpha m8 * K_T m8\<rparr>
      in if C_v m9 = 0 then Raised m9 else
      let m10 = m9\<lparr>gr := alpha m9 * K_T m9 * V m9 / C_v m9\<rparr>;
          m11 = m10\<lparr>K_S := K_T m10 * C_p m10 / C_v m10\<rparr>
      in Returned m11)"

subsection \<open>The dispatcher\<close>

text \<open>
  A modifier is a pair of a kind tag and a parameter set. The body of the loop is five
  \<open>if\<close> statements in a row, none with an \<open>else\<close>. An exception raised while the
  excesses are computed leaves the mineral as it was before that statement. Where the
  excesses have no real value because NumPy produced nan or an infinity, the code goes
  on with those values; the model has no such numbers and stops at that statement too.
\<close>

fun then_do :: "outcome \<Rightarrow> (mineral \<Rightarrow> outcome) \<Rightarrow> outcome" where
  "then_do (Returned m) f = f m"
| "then_do (Raised m) f = Raised m"

definition apply_excesses :: "mineral \<Rightarrow> excesses option \<Rightarrow> outcome" where
  "apply_excesses m r = (case r of None \<Rightarrow> Raised m | Some ex \<Rightarrow> modify_properties m ex)"

definition apply_modifier ::
  "real \<Rightarrow> root_finder \<Rightarrow> string \<times> param_set \<Rightarrow> mineral \<Rightarrow> outcome" where
  "apply_modifier gas_constant fsolve modifier m0 =
     then_do (then_do (then_do (then_do
       (if fst modifier = ''landau'' then
          apply_excesses m0 (landau_excesses (pressure m0) (temperature m0) (snd modifier))
        else Returned m0)
       (\<lambda>m. if fst modifier = ''landau_hp'' then
          apply_excesses m (do {
            P_0 \<leftarrow> num (params m) ''P_0'';
            T_0 \<leftarrow> num (params m) ''T_0'';
            landau_hp_excesses (pressure m) (temperature m) P_0 T_0 (snd modifier) })
        else Returned m))
       (\<lambda>m. if fst modifier = ''dqf'' then
          apply_excesses m (dqf_excesses (pressure m) (temperature m) (snd modifier))
        else Returned m))
       (\<lambda>m. if fst modifier = ''bragg_williams'' then
          apply_excesses m (bragg_williams_excesses gas_constant fsolve
                              (pressure m) (temperature m) (snd modifier))
        else Returned m))
       (\<lambda>m. if fst modifier = ''magnetic_chs'' then
          apply_excesses m (magnetic_excesses_chs gas_constant
                              (pressure m) (temperature m) (snd modifier))
        else Returned m)"

fun run_modifiers ::
  "real \<Rightarrow> root_finder \<Rightarrow> (string \<times> param_set) list \<Rightarrow> mineral \<Rightarrow> outcome" where
  "run_modifiers gas_constant fsolve [] m = Returned m"
| "run_modifiers gas_constant fsolve (modifier # rest) m =
     then_do (apply_modifier gas_constant fsolve modifier m)
             (run_modifiers gas_constant fsolve rest)"

definition apply_property_modifiers :: "real \<Rightarrow> root_finder \<Rightarrow> mineral \<Rightarrow> outcome" where
  "apply_property_modifiers gas_constant fsolve m =
     run_modifiers gas_constant fsolve (property_modifiers m) m"

subsection \<open>Concrete values used to instantiate the theorems\<close>

text \<open>
  A mineral at 1 GPa and 1000 K whose derived properties satisfy the thermodynamic
  identities, with a single DQF modifier attached, and the excess record of that
  modifier at this state.
\<close>

definition scenario_dqf :: param_set where
  "scenario_dqf = [''H'' \<mapsto> Num 0, ''S'' \<mapsto> Num 1, ''V'' \<mapsto> Num (1 / 10 ^ 6)]"

definition scenario_mineral :: mineral where
  "scenario_mineral =
     \<lparr> pressure = 10 ^ 9, temperature = 1000, gibbs = - 100, C_p = 100,
       K_T = 2 * 10 ^ 11, alpha = 2 / 10 ^ 5, S = 10, V = 1 / 10 ^ 5,
       H = 9900, helmholtz = - 10100, C_v = 99.2, gr = 40 / 99.2,
       K_S = 2 * 10 ^ 13 / 99.2,
       property_modifiers = [(''dqf'', scenario_dqf)], params = Map.empty \<rparr>"

definition scenario_excesses :: excesses where
  "scenario_excesses = \<lparr> G = 0, dGdT = - 1, dGdP = 1 / 10 ^ 6,
                          d2GdT2 = 0, d2GdP2 = 0, d2GdPdT = 0 \<rparr>"

text \<open>
  A value for the gas constant, a root finder that stops at once and hands back its
  initial guess as the last iterate, one that reports the guess as a solution, a
  mineral whose only modifier has a kind tag outside the five known ones, and
  parameter sets for the Landau, magnetic and Bragg-Williams corrections. With the
  Bragg-Williams set the residual of the order parameter is 1 wherever it is defined,
  so it has no root.
\<close>

definition scenario_gas_constant :: real where
  "scenario_gas_constant = 8.31446"

definition stalled_solver :: root_finder where
  "stalled_solver residual x0 = LastIterate x0"

definition settled_solver :: root_finder where
  "settled_solver residual x0 = Solution x0"

definition unknown_mineral :: mineral where
  "unknown_mineral = scenario_mineral\<lparr>property_modifiers := [(''einstein'', scenario_dqf)]\<rparr>"


definition scenario_magnetic :: param_set where
  "scenario_magnetic = [''structural_parameter'' \<mapsto> Num 0.4,
                        ''curie_temperature'' \<mapsto> Seq [1043, 0],
                        ''magnetic_moment'' \<mapsto> Seq [0, 0]]"

definition scenario_bragg_williams :: param_set where
  "scenario_bragg_williams =
     [''n'' \<mapsto> Num 1, ''factor'' \<mapsto> Num 0, ''deltaH'' \<mapsto> Num 1,
      ''deltaV'' \<mapsto> Num 0, ''Wh'' \<mapsto> Num 0, ''Wv'' \<mapsto> Num 0]"

subsection \<open>The compositor in double arithmetic\<close>

text \<open>
  Python floats are IEEE 754 binary64 numbers, and each arithmetic operation returns
  the exact result rounded to the nearest such number, ties to the even significand.
  \<open>to_double\<close> is that rounding for a significand of 53 bits; the exponent is not
  bounded, so overflow and the subnormal range are outside the model, and every finite
  double is one of its fixed points. \<open>modify_properties_rounded\<close> is the
  compositor with the result of every operation passed through a rounding function:
  with \<open>to_double\<close> it is the arithmetic of the code, with the identity it is
  \<open>modify_properties\<close>.
\<close>

definition round_even :: "real \<Rightarrow> int" where
  "round_even r =
     (let f = \<lfloor>r\<rfloor>; d = r - of_int f
      in if d < 1 / 2 then f else if 1 / 2 < d then f + 1
         else if even f then f else f + 1)"

definition to_double :: "real \<Rightarrow> real" where
  "to_double x =
     (if x = 0 then 0
      else let e = \<lfloor>log 2 \<bar>x\<bar>\<rfloor> - 52
           in of_int (round_even (x / 2 powi e)) * 2 powi e)"

definition modify_properties_rounded :: "(real \<Rightarrow> real) \<Rightarrow> mineral \<Rightarrow> excesses \<Rightarrow> outcome" where
  "modify_properties_rounded rnd m0 ex =
     (let m1 = m0\<lparr>gibbs := rnd (gibbs m0 + G ex)\<rparr>;
          m2 = m1\<lparr>C_p := rnd (C_p m1 - rnd (temperature m1 * d2GdT2 ex))\<rparr>
      in if K_T m2 = 0 \<or> rnd (d2GdP2 ex - rnd (V m2 / K_T m2)) = 0 then Raised m2 else
      let m3 = m2\<lparr>K_T := rnd (- rnd (V m2 + dGdP ex)
                                 / rnd (d2GdP2 ex - rnd (V m2 / K_T m2)))\<rparr>
      in if rnd (V m3 + dGdP ex) = 0 then Raised m3 else
      let m4 = m3\<lparr>alpha := rnd (rnd (rnd (alpha m3 * V m3) + d2GdPdT ex)
                                  / rnd (V m3 + dGdP ex))\<rparr>;
          m5 = m4\<lparr>S := rnd (S m4 - dGdT ex)\<rparr>;
          m6 = m5\<lparr>V := rnd (V m5 + dGdP ex)\<rparr>;
          m7 = m6\<lparr>H := rnd (gibbs m6 + rnd (temperature m6 * S m6))\<rparr>;
          m8 = m7\<lparr>helmholtz := rnd (gibbs m7 - rnd (pressure m7 * V m7))\<rparr>;
          m9 = m8\<lparr>C_v := rnd (C_p m8 - rnd (rnd (rnd (rnd (V m8 * temperature m8)
                                  * alpha m8) * alpha m8) * K_T m8))\<rparr>
      in if C_v m9 = 0 then Raised m9 else
      let m10 = m9\<lparr>gr := rnd (rnd (rnd (alpha m9 * K_T m9) * V m9) / C_v m9)\<rparr>;
          m11 = m10\<lparr>K_S := rnd (rnd (K_T m10 * C_p m10) / C_v m10)\<rparr>
      in Returned m11)"


definition dyadic_mineral :: mineral where
  "dyadic_mineral =
     \<lparr> pressure = 1, temperature = 1, gibbs = - 100, C_p = 113 / 64,
       K_T = 49, alpha = 1 / 8, S = 10, V = 1,
       H = - 90, helmholtz = - 101, C_v = 1, gr = 49 / 8, K_S = 5537 / 64,
       property_modifiers = [], params = Map.empty \<rparr>"

section \<open>Properties\<close>

subsection \<open>Auxiliary facts\<close>

lemma num_Some [simp]: "prm k = Some (Num x) \<Longrightarrow> num prm k = Some x"
  by (simp add: num_def)

text \<open>The compositor with its eleven assignments written as one update per exit.\<close>

lemma modify_properties_cases:
  "modify_properties m ex =
     (let g = gibbs m + G ex;
          cp = C_p m - temperature m * d2GdT2 ex;
          kt = - (V m + dGdP ex) / (d2GdP2 ex - V m / K_T m);
          al = (alpha m * V m + d2GdPdT ex) / (V m + dGdP ex);
          s = S m - dGdT ex;
          v = V m + dGdP ex;
          cv = cp - v * temperature m * al * al * kt
      in if K_T m = 0 \<or> d2GdP2 ex - V m / K_T m = 0 then
           Raised (m\<lparr>gibbs := g, C_p := cp\<rparr>)
         else if V m + dGdP ex = 0 then
           Raised (m\<lparr>gibbs := g, C_p := cp, K_T := kt\<rparr>)
         else if cv = 0 then
           Raised (m\<lparr>gibbs := g, C_p := cp, K_T := kt, alpha := al, S := s, V := v,
                     H := g + temperature m * s, helmholtz := g - pressure m * v,
                     C_v := cv\<rparr>)
         else
           Returned (m\<lparr>gibbs := g, C_p := cp, K_T := kt, alpha := al, S := s, V := v,
                     H := g + temperature m * s, helmholtz := g - pressure m * v,
                     C_v := cv, gr := al * kt * v / cv, K_S := kt * cp / cv\<rparr>))"
  by (simp add: modify_properties_def Let_def)

lemma scenario_modify:
  "modify_properties scenario_mineral scenario_excesses =
     Returned (scenario_mineral\<lparr> gibbs := - 100, C_p := 100, K_T := 22 * 10 ^ 10,
        alpha := 2 / (11 * 10 ^ 4), S := 11, V := 11 / 10 ^ 6,
        H := 10900, helmholtz := - 11100, C_v := 99.2,
        gr := 44 / 99.2, K_S := 22 * 10 ^ 12 / 99.2 \<rparr>)"
  by (simp add: modify_properties_cases Let_def scenario_mineral_def scenario_excesses_def)

subsection \<open>The compositor\<close>

text \<open>
  C4. After a call of the compositor whose divisors are all different from zero (the
  old \<open>K_T\<close>, the divisor of the new \<open>K_T\<close>, the new volume and the new \<open>C_v\<close>), the
  call returns and the mineral satisfies \<open>H = G + T S\<close>, \<open>Helmholtz = G - P V\<close>,
  \<open>C_v = C_p - V T alpha\<^sup>2 K_T\<close>, \<open>K_S = K_T C_p / C_v\<close> and
  \<open>gr = alpha K_T V / C_v\<close>, for any excess record and any starting state.
\<close>

theorem modify_properties_identities:
  assumes "K_T m \<noteq> 0" and "d2GdP2 ex - V m / K_T m \<noteq> 0" and "V m + dGdP ex \<noteq> 0"
    and "C_v (state_of (modify_properties m ex)) \<noteq> 0"
  shows "\<exists>m'. modify_properties m ex = Returned m'
           \<and> H m' = gibbs m' + temperature m' * S m'
           \<and> helmholtz m' = gibbs m' - pressure m' * V m'
           \<and> C_v m' = C_p m' - V m' * temperature m' * (alpha m')\<^sup>2 * K_T m'
           \<and> K_S m' = K_T m' * C_p m' / C_v m'
           \<and> gr m' = alpha m' * K_T m' * V m' / C_v m'"
proof (cases "modify_properties m ex")
  case (Returned m')
  then show ?thesis
    using assms(1-3)
    by (auto simp add: modify_properties_cases Let_def power2_eq_square split: if_splits)
next
  case (Raised m')
  then have "C_v m' = 0"
    using assms(1-3)
    by (auto simp add: modify_properties_cases Let_def split: if_splits)
  with Raised assms(4) show ?thesis by simp
qed

theorem modify_properties_identities_witness:
  "K_T scenario_mineral \<noteq> 0
   \<and> d2GdP2 scenario_excesses - V scenario_mineral / K_T scenario_mineral \<noteq> 0
   \<and> V scenario_mineral + dGdP scenario_excesses \<noteq> 0
   \<and> C_v (state_of (modify_properties scenario_mineral scenario_excesses)) \<noteq> 0
   \<and> (\<exists>m'. modify_properties scenario_mineral scenario_excesses = Returned m'
           \<and> H m' = gibbs m' + temperature m' * S m'
           \<and> helmholtz m' = gibbs m' - pressure m' * V m'
           \<and> C_v m' = C_p m' - V m' * temperature m' * (alpha m')\<^sup>2 * K_T m'
           \<and> K_S m' = K_T m' * C_p m' / C_v m'
           \<and> gr m' = alpha m' * K_T m' * V m' / C_v m')"
proof -
  have h1: "K_T scenario_mineral \<noteq> 0"
    by (simp add: scenario_mineral_def)
  have h2: "d2GdP2 scenario_excesses - V scenario_mineral / K_T scenario_mineral \<noteq> 0"
    by (simp add: scenario_mineral_def scenario_excesses_def)
  have h3: "V scenario_mineral + dGdP scenario_excesses \<noteq> 0"
    by (simp add: scenario_mineral_def scenario_excesses_def)
  have h4: "C_v (state_of (modify_properties scenario_mineral scenario_excesses)) \<noteq> 0"
    by (simp add: scenario_modify)
  from modify_properties_identities [OF h1 h2 h3 h4] h1 h2 h3 h4 show ?thesis
    by blast
qed

subsection \<open>The compositor in double arithmetic\<close>

lemma round_even_of_int [simp]: "round_even (of_int n) = n"
  by (simp add: round_even_def)

lemma to_double_zero [simp]: "to_double 0 = 0"
  by (simp add: to_double_def)



text \<open>A number with a significand below \<open>2^53\<close> is not changed by the rounding.\<close>

lemma to_double_representable:
  assumes "\<bar>n\<bar> < 2 ^ 53"
  shows "to_double (of_int n * 2 powi e) = of_int n * 2 powi e"
proof (cases "n = 0")
  case True
  then show ?thesis by simp
next
  case False
  define x :: real where "x = of_int n * 2 powi e"
  define k where "k = \<lfloor>log 2 \<bar>x\<bar>\<rfloor>"
  have xpos: "0 < \<bar>x\<bar>"
    using False by (simp add: x_def)
  have "2 powr real_of_int k \<le> \<bar>x\<bar>"
    using floor_log_eq_powr_iff [OF xpos, of 2 k] by (simp add: k_def)
  then have lo: "2 powi k \<le> \<bar>x\<bar>"
    by (simp add: powr_real_of_int')
  have "\<bar>x\<bar> = of_int \<bar>n\<bar> * 2 powi e"
    by (simp add: x_def abs_mult)
  also have "\<dots> < 2 ^ 53 * 2 powi e"
  proof -
    have "(of_int \<bar>n\<bar> :: real) < of_int (2 ^ 53)"
      using assms by (simp only: of_int_less_iff)
    then show ?thesis by simp
  qed
  also have "\<dots> = 2 powi (e + 53)"
    by (simp add: power_int_add)
  finally have hi: "\<bar>x\<bar> < 2 powi (e + 53)" .
  have less: "(2::real) powi k < 2 powi (e + 53)"
    using lo hi by simp
  have "k < e + 53"
  proof (rule ccontr)
    assume "\<not> k < e + 53"
    then have "(2::real) powi (e + 53) \<le> 2 powi k"
      by (intro power_int_increasing) simp_all
    with less show False by simp
  qed
  define t where "t = nat (e - (k - 52))"
  have t: "e = (k - 52) + int t"
    using \<open>k < e + 53\<close> by (simp add: t_def)
  have q: "x / 2 powi (k - 52) = of_int (n * 2 ^ t)"
    by (simp add: x_def t power_int_add)
  have "to_double x = of_int (round_even (x / 2 powi (k - 52))) * 2 powi (k - 52)"
    using xpos by (simp add: to_double_def k_def Let_def)
  also have "\<dots> = of_int (n * 2 ^ t) * 2 powi (k - 52)"
    by (simp only: q round_even_of_int)
  also have "\<dots> = x"
    by (simp add: x_def t power_int_add)
  finally show ?thesis
    by (simp add: x_def)
qed

lemma to_double_int: "\<bar>n\<bar> < 2 ^ 53 \<Longrightarrow> to_double (of_int n) = of_int n"
  using to_double_representable [of n 0] by simp

lemma to_double_dyadic:
  "\<bar>n\<bar> < 2 ^ 53 \<Longrightarrow> to_double (of_int n / 2 ^ k) = of_int n / 2 ^ k"
  using to_double_representable [of n "- int k"]
  by (simp add: power_int_minus field_simps)

text \<open>The values that occur when the compositor runs on \<open>dyadic_mineral\<close>.\<close>

lemma to_double_1: "to_double 1 = 1"
  using to_double_int [of 1] by simp

lemma to_double_10: "to_double 10 = 10"
  using to_double_int [of 10] by simp


lemma to_double_m90: "to_double (- 90) = - 90"
  using to_double_int [of "- 90"] by simp

lemma to_double_m101: "to_double (- 101) = - 101"
  using to_double_int [of "- 101"] by simp


lemma to_double_1_8: "to_double (1 / 8) = 1 / 8"
  using to_double_dyadic [of 1 3] by simp

lemma to_double_1_64: "to_double (1 / 64) = 1 / 64"
  using to_double_dyadic [of 1 6] by simp

lemma to_double_49_8: "to_double (49 / 8) = 49 / 8"
  using to_double_dyadic [of 49 3] by simp

lemma to_double_49_64: "to_double (49 / 64) = 49 / 64"
  using to_double_dyadic [of 49 6] by simp

lemma to_double_5537_64: "to_double (5537 / 64) = 5537 / 64"
  using to_double_dyadic [of 5537 6] by simp






text \<open>The rounded compositor with one update per exit, as for the exact one.\<close>

lemma modify_properties_rounded_cases:
  "modify_properties_rounded rnd m ex =
     (let g = rnd (gibbs m + G ex);
          cp = rnd (C_p m - rnd (temperature m * d2GdT2 ex));
          dn = rnd (d2GdP2 ex - rnd (V m / K_T m));
          kt = rnd (- rnd (V m + dGdP ex) / dn);
          v = rnd (V m + dGdP ex);
          al = rnd (rnd (rnd (alpha m * V m) + d2GdPdT ex) / v);
          s = rnd (S m - dGdT ex);
          h = rnd (g + rnd (temperature m * s));
          a = rnd (g - rnd (pressure m * v));
          cv = rnd (cp - rnd (rnd (rnd (rnd (v * temperature m) * al) * al) * kt))
      in if K_T m = 0 \<or> dn = 0 then
           Raised (m\<lparr>gibbs := g, C_p := cp\<rparr>)
         else if v = 0 then
           Raised (m\<lparr>gibbs := g, C_p := cp, K_T := kt\<rparr>)
         else if cv = 0 then
           Raised (m\<lparr>gibbs := g, C_p := cp, K_T := kt, alpha := al, S := s, V := v,
                     H := h, helmholtz := a, C_v := cv\<rparr>)
         else
           Returned (m\<lparr>gibbs := g, C_p := cp, K_T := kt, alpha := al, S := s, V := v,
                     H := h, helmholtz := a, C_v := cv,
                     gr := rnd (rnd (rnd (al * kt) * v) / cv),
                     K_S := rnd (rnd (kt * cp) / cv)\<rparr>))"
  by (simp add: modify_properties_rounded_def Let_def)

text \<open>Without rounding, the rounded compositor is the exact one.\<close>

lemma modify_properties_rounded_exact:
  "modify_properties_rounded (\<lambda>x. x) m ex = modify_properties m ex"
  by (simp add: modify_properties_rounded_cases modify_properties_cases Let_def)

lemma dyadic_mineral_identities_double:
  "H dyadic_mineral
     = to_double (gibbs dyadic_mineral
                  + to_double (temperature dyadic_mineral * S dyadic_mineral))
   \<and> helmholtz dyadic_mineral
     = to_double (gibbs dyadic_mineral
                  - to_double (pressure dyadic_mineral * V dyadic_mineral))
   \<and> C_v dyadic_mineral
     = to_double (C_p dyadic_mineral
         - to_double (to_double (to_double (to_double
             (V dyadic_mineral * temperature dyadic_mineral) * alpha dyadic_mineral)
             * alpha dyadic_mineral) * K_T dyadic_mineral))
   \<and> gr dyadic_mineral
     = to_double (to_double (to_double (alpha dyadic_mineral * K_T dyadic_mineral)
                             * V dyadic_mineral) / C_v dyadic_mineral)
   \<and> K_S dyadic_mineral
     = to_double (to_double (K_T dyadic_mineral * C_p dyadic_mineral) / C_v dyadic_mineral)"
  by (simp add: dyadic_mineral_def to_double_1 to_double_10 to_double_m90 to_double_m101
      to_double_1_8 to_double_1_64 to_double_49_64 to_double_49_8 to_double_5537_64)




text \<open>
  C10. Frame of the compositor: whether the call returns or raises, the mineral it
  leaves differs from the one it was given at most in the eleven derived properties
  \<open>gibbs\<close>, \<open>C_p\<close>, \<open>K_T\<close>, \<open>alpha\<close>, \<open>S\<close>, \<open>V\<close>, \<open>H\<close>, \<open>helmholtz\<close>, \<open>C_v\<close>, \<open>gr\<close>
  and \<open>K_S\<close>; pressure and temperature are read and keep their values. The excess
  record is only read: the compositor has no assignment to it, and takes it as a value.
\<close>

theorem modify_properties_frame:
  "state_of (modify_properties m ex) =
     m\<lparr>gibbs := gibbs (state_of (modify_properties m ex)),
       C_p := C_p (state_of (modify_properties m ex)),
       K_T := K_T (state_of (modify_properties m ex)),
       alpha := alpha (state_of (modify_properties m ex)),
       S := S (state_of (modify_properties m ex)),
       V := V (state_of (modify_properties m ex)),
       H := H (state_of (modify_properties m ex)),
       helmholtz := helmholtz (state_of (modify_properties m ex)),
       C_v := C_v (state_of (modify_properties m ex)),
       gr := gr (state_of (modify_properties m ex)),
       K_S := K_S (state_of (modify_properties m ex))\<rparr>
   \<and> pressure (state_of (modify_properties m ex)) = pressure m
   \<and> temperature (state_of (modify_properties m ex)) = temperature m"
  by (simp add: modify_properties_cases Let_def)

subsection \<open>The linear correction\<close>

text \<open>
  C6. For every pressure, temperature and parameter set with numbers under the keys
  \<open>H\<close>, \<open>S\<close> and \<open>V\<close>, the DQF correction returns \<open>G = H - T S + P V\<close>,
  \<open>dGdT = - S\<close>, \<open>dGdP = V\<close> and three zero second derivatives; \<open>G\<close> is affine in
  pressure and temperature: a step \<open>(dP, dT)\<close> changes it by \<open>dP V - dT S\<close>.
\<close>

theorem dqf_excesses_linear:
  assumes "prm ''H'' = Some (Num h)" and "prm ''S'' = Some (Num s)"
    and "prm ''V'' = Some (Num v)"
  shows "dqf_excesses P T prm =
           Some \<lparr> G = h - T * s + P * v, dGdT = - s, dGdP = v,
                  d2GdT2 = 0, d2GdP2 = 0, d2GdPdT = 0 \<rparr>
         \<and> map_option G (dqf_excesses (P + dP) (T + dT) prm) =
             Some ((h - T * s + P * v) + (dP * v - dT * s))"
  using assms by (simp add: dqf_excesses_def algebra_simps)

theorem dqf_excesses_linear_witness:
  "dqf_excesses (10 ^ 9) 1000 scenario_dqf =
     Some \<lparr> G = 0, dGdT = - 1, dGdP = 1 / 10 ^ 6,
            d2GdT2 = 0, d2GdP2 = 0, d2GdPdT = 0 \<rparr>
   \<and> map_option G (dqf_excesses (10 ^ 9 + 1000) (1000 + 1) scenario_dqf) = Some (1 / 1000 - 1)"
  using dqf_excesses_linear [of scenario_dqf 0 1 "1 / 10 ^ 6" "10 ^ 9" 1000 1000 1]
  by (simp add: scenario_dqf_def)

subsection \<open>The dispatcher\<close>

lemma then_do_Returned [simp]: "then_do r Returned = r"
  by (cases r) simp_all

lemma run_modifiers_Nil: "run_modifiers R fs [] = Returned"
  by (rule ext) simp

lemma run_modifiers_append:
  "run_modifiers R fs (xs @ ys) m = then_do (run_modifiers R fs xs m) (run_modifiers R fs ys)"
proof (induction xs arbitrary: m)
  case Nil
  show ?case by simp
next
  case (Cons x xs)
  show ?case
    by (cases "apply_modifier R fs x m") (simp_all add: Cons.IH)
qed

lemma apply_modifier_dqf:
  "apply_modifier R fs (''dqf'', prm) m =
     apply_excesses m (dqf_excesses (pressure m) (temperature m) prm)"
  by (simp add: apply_modifier_def)

lemma apply_modifier_unknown:
  assumes "tag \<notin> {''landau'', ''landau_hp'', ''dqf'', ''bragg_williams'', ''magnetic_chs''}"
  shows "apply_modifier R fs (tag, prm) m = Returned m"
  using assms by (simp add: apply_modifier_def)

lemma scenario_dqf_excesses:
  "dqf_excesses 1000000000 1000 scenario_dqf = Some scenario_excesses"
  by (simp add: dqf_excesses_def num_def scenario_dqf_def scenario_excesses_def)

text \<open>
  C1, as the code has it. A mineral with \<open>G = -100\<close>, \<open>S = 10\<close>, \<open>V = 1e-5\<close>,
  \<open>C_p = 100\<close>, \<open>K_T = 2e11\<close>, \<open>alpha = 2e-5\<close> at 1e9 Pa and 1000 K, whatever its
  other attributes, with the single modifier \<open>('dqf', {H: 0, S: 1, V: 1e-6})\<close>:
  the dispatcher returns and leaves \<open>G = -100\<close>, \<open>V = 1.1e-5\<close> and \<open>S = 11\<close>.
  The entropy grows by the parameter \<open>S\<close>, because the excess has \<open>dGdT = - S\<close> and
  the compositor subtracts \<open>dGdT\<close>.
\<close>

theorem apply_property_modifiers_dqf_scenario:
  "\<not> has_raised (apply_property_modifiers R fs
        (m\<lparr>pressure := 10 ^ 9, temperature := 1000, gibbs := - 100, S := 10,
           V := 1 / 10 ^ 5, C_p := 100, K_T := 2 * 10 ^ 11, alpha := 2 / 10 ^ 5,
           property_modifiers := [(''dqf'', scenario_dqf)]\<rparr>))
   \<and> gibbs (state_of (apply_property_modifiers R fs
        (m\<lparr>pressure := 10 ^ 9, temperature := 1000, gibbs := - 100, S := 10,
           V := 1 / 10 ^ 5, C_p := 100, K_T := 2 * 10 ^ 11, alpha := 2 / 10 ^ 5,
           property_modifiers := [(''dqf'', scenario_dqf)]\<rparr>))) = - 100
   \<and> S (state_of (apply_property_modifiers R fs
        (m\<lparr>pressure := 10 ^ 9, temperature := 1000, gibbs := - 100, S := 10,
           V := 1 / 10 ^ 5, C_p := 100, K_T := 2 * 10 ^ 11, alpha := 2 / 10 ^ 5,
           property_modifiers := [(''dqf'', scenario_dqf)]\<rparr>))) = 11
   \<and> V (state_of (apply_property_modifiers R fs
        (m\<lparr>pressure := 10 ^ 9, temperature := 1000, gibbs := - 100, S := 10,
           V := 1 / 10 ^ 5, C_p := 100, K_T := 2 * 10 ^ 11, alpha := 2 / 10 ^ 5,
           property_modifiers := [(''dqf'', scenario_dqf)]\<rparr>))) = 11 / 10 ^ 6"
proof -
  let ?m = "m\<lparr>pressure := 10 ^ 9, temperature := 1000, gibbs := - 100, S := 10,
           V := 1 / 10 ^ 5, C_p := 100, K_T := 2 * 10 ^ 11, alpha := 2 / 10 ^ 5,
           property_modifiers := [(''dqf'', scenario_dqf)]\<rparr>"
  have run: "apply_property_modifiers R fs ?m = modify_properties ?m scenario_excesses"
    by (simp add: apply_property_modifiers_def run_modifiers_Nil apply_modifier_dqf
        scenario_dqf_excesses apply_excesses_def)
  show ?thesis
    unfolding run
    by (simp add: modify_properties_cases Let_def scenario_excesses_def)
qed

text \<open>
  The claim C1 as written asks for \<open>S = 9\<close> after the call; at the mineral of the
  scenario the entropy is not 9.
\<close>

theorem apply_property_modifiers_dqf_entropy_counterexample:
  "S (state_of (apply_property_modifiers scenario_gas_constant stalled_solver scenario_mineral))
     \<noteq> 9"
proof -
  have "apply_property_modifiers scenario_gas_constant stalled_solver scenario_mineral
          = modify_properties scenario_mineral scenario_excesses"
    by (simp add: apply_property_modifiers_def run_modifiers_Nil apply_modifier_dqf
        scenario_dqf_excesses apply_excesses_def scenario_mineral_def)
  then show ?thesis
    by (simp add: scenario_modify)
qed

text \<open>
  C2, as the code has it. An entry of the modifier list whose kind tag is none of
  \<open>landau\<close>, \<open>landau_hp\<close>, \<open>dqf\<close>, \<open>bragg_williams\<close>, \<open>magnetic_chs\<close> is skipped:
  the loop body returns with the mineral untouched and nothing raised, and the run
  over the whole list gives what it gives on the list without that entry.
\<close>

theorem apply_modifier_unknown_skipped:
  assumes "tag \<notin> {''landau'', ''landau_hp'', ''dqf'', ''bragg_williams'', ''magnetic_chs''}"
  shows "apply_modifier R fs (tag, prm) m = Returned m
         \<and> run_modifiers R fs (before @ (tag, prm) # rest) m
             = run_modifiers R fs (before @ rest) m"
proof -
  have skip: "apply_modifier R fs (tag, prm) m' = Returned m'" for m'
    using assms by (rule apply_modifier_unknown)
  have "run_modifiers R fs ((tag, prm) # rest) = run_modifiers R fs rest"
    by (rule ext) (simp add: skip)
  then show ?thesis
    by (simp add: skip run_modifiers_append)
qed

theorem apply_modifier_unknown_skipped_witness:
  "''einstein'' \<notin> {''landau'', ''landau_hp'', ''dqf'', ''bragg_williams'', ''magnetic_chs''}
   \<and> apply_modifier scenario_gas_constant stalled_solver (''einstein'', scenario_dqf)
        scenario_mineral = Returned scenario_mineral
   \<and> run_modifiers scenario_gas_constant stalled_solver
        ([(''dqf'', scenario_dqf)] @ (''einstein'', scenario_dqf) # []) scenario_mineral
       = run_modifiers scenario_gas_constant stalled_solver
           ([(''dqf'', scenario_dqf)] @ []) scenario_mineral"
proof -
  have h: "''einstein'' \<notin> {''landau'', ''landau_hp'', ''dqf'', ''bragg_williams'', ''magnetic_chs''}"
    by simp
  show ?thesis
    by (rule conjI [OF h apply_modifier_unknown_skipped [OF h]])
qed

text \<open>
  The claim C2 as written asks for an error on an unknown kind tag; on the mineral
  whose only modifier is tagged \<open>einstein\<close> the dispatcher returns without raising
  and the mineral is as before.
\<close>

theorem apply_property_modifiers_unknown_counterexample:
  "\<not> has_raised (apply_property_modifiers scenario_gas_constant stalled_solver unknown_mineral)
   \<and> state_of (apply_property_modifiers scenario_gas_constant stalled_solver unknown_mineral)
       = unknown_mineral"
  by (simp add: apply_property_modifiers_def unknown_mineral_def apply_modifier_def)

subsection \<open>The Bragg-Williams correction\<close>

lemma order_gibbs_cong:
  assumes "\<forall>residual x0. returned_iterate (fs residual x0) = returned_iterate (fs' residual x0)"
  shows "order_gibbs R fs n f deltaS P T prm = order_gibbs R fs' n f deltaS P T prm"
  using assms by (simp add: order_gibbs_def)

lemma scenario_order_gibbs:
  "order_gibbs R stalled_solver 1 0 dS P T scenario_bragg_williams
     = Some (0.999995, 5 / 10 ^ 6)"
  by (simp add: order_gibbs_def num_def scenario_bragg_williams_def stalled_solver_def
      returned_iterate_def lnxdisord_def lnxord_def np_log_def fdiv_def)

lemma scenario_residual_no_root:
  "reaction_bragg_williams R Q 1 T 1 0 0 \<noteq> Some 0"
  by (simp add: reaction_bragg_williams_def Let_def split: bind_splits)

text \<open>
  C3, as the code has it. The correction reads from the root finder the iterate it
  hands back and nothing else: two root finders that hand back the same iterates,
  whatever their status (a solution, or the last iterate of a search that did not
  converge), give the same result. A search that does not converge is therefore no
  error of the correction; its last iterate is used as \<open>Q\<close>.
\<close>

theorem bragg_williams_excesses_ignores_status:
  assumes "\<forall>residual x0. returned_iterate (fs residual x0) = returned_iterate (fs' residual x0)"
  shows "bragg_williams_excesses R fs P T prm = bragg_williams_excesses R fs' P T prm"
  by (simp add: bragg_williams_excesses_def order_gibbs_cong [OF assms])

theorem bragg_williams_excesses_ignores_status_witness:
  "(\<forall>residual x0. returned_iterate (stalled_solver residual x0)
                     = returned_iterate (settled_solver residual x0))
   \<and> bragg_williams_excesses scenario_gas_constant stalled_solver (10 ^ 9) 1000
         scenario_bragg_williams
       = bragg_williams_excesses scenario_gas_constant settled_solver (10 ^ 9) 1000
           scenario_bragg_williams"
proof -
  have h: "\<forall>residual x0. returned_iterate (stalled_solver residual x0)
                     = returned_iterate (settled_solver residual x0)"
    by (simp add: returned_iterate_def stalled_solver_def settled_solver_def)
  show ?thesis
    by (rule conjI [OF h bragg_williams_excesses_ignores_status [OF h]])
qed

text \<open>
  The claim C3 as written asks for an error when the search for \<open>Q\<close> does not converge.
  With the parameters \<open>n = 1\<close>, \<open>factor = 0\<close>, \<open>deltaH = 1\<close> and the others zero, the
  residual has no root at any temperature; a root finder that gives up at its initial
  guess 0.999995 makes the correction return a record computed from that guess.
\<close>

theorem bragg_williams_excesses_stalled_counterexample:
  "(\<forall>T Q. reaction_bragg_williams scenario_gas_constant Q 1 T 1 0 0 \<noteq> Some 0)
   \<and> stalled_solver
       (\<lambda>Q. reaction_bragg_williams scenario_gas_constant Q 1 1000 1 0 0) 0.999995
       = LastIterate 0.999995
   \<and> bragg_williams_excesses scenario_gas_constant stalled_solver (10 ^ 9) 1000
       scenario_bragg_williams
     = Some \<lparr> G = 5 / 10 ^ 6, dGdT = 0, dGdP = 0, d2GdT2 = 0, d2GdP2 = 0, d2GdPdT = 0 \<rparr>"
proof -
  have n: "num scenario_bragg_williams ''n'' = Some 1"
    and f: "num scenario_bragg_williams ''factor'' = Some 0"
    by (simp_all add: num_def scenario_bragg_williams_def)
  show ?thesis
    by (simp add: bragg_williams_excesses_def n f scenario_order_gibbs np_log_def
        stalled_solver_def scenario_residual_no_root)
qed

subsection \<open>The Landau corrections\<close>






subsection \<open>The magnetic correction\<close>

text \<open>
  C9, as the code has it. With both coefficients of the magnetic moment zero, the
  magnetic correction returns six zeros at every pressure and temperature at which
  none of its divisions is by zero: the temperature, the Curie temperature at that
  pressure, the structural parameter and the constant \<open>A\<close> are not zero.
\<close>

theorem magnetic_excesses_chs_zero_moment:
  assumes "num prm ''structural_parameter'' = Some sp"
    and "item prm ''curie_temperature'' 0 = Some c0"
    and "item prm ''curie_temperature'' 1 = Some c1"
    and "item prm ''magnetic_moment'' 0 = Some 0"
    and "item prm ''magnetic_moment'' 1 = Some 0"
    and "T \<noteq> 0" and "c0 + P * c1 \<noteq> 0" and "sp \<noteq> 0"
    and "518 / 1125 + (11692 / 15975) * (1 / sp - 1) \<noteq> 0"
  shows "magnetic_excesses_chs R P T prm =
           Some \<lparr> G = 0, dGdT = 0, dGdP = 0, d2GdT2 = 0, d2GdP2 = 0, d2GdPdT = 0 \<rparr>"
proof (cases "T / (c0 + P * c1) < 1")
  case True
  with assms show ?thesis
    by (simp add: magnetic_excesses_chs_def fdiv_def np_log_def Let_def)
next
  case False
  with assms show ?thesis
    by (simp add: magnetic_excesses_chs_def fdiv_def np_log_def Let_def)
qed

theorem magnetic_excesses_chs_zero_moment_witness:
  "magnetic_excesses_chs scenario_gas_constant (10 ^ 9) 1000 scenario_magnetic =
     Some \<lparr> G = 0, dGdT = 0, dGdP = 0, d2GdT2 = 0, d2GdP2 = 0, d2GdPdT = 0 \<rparr>"
  by (rule magnetic_excesses_chs_zero_moment [where sp = "0.4" and ?c0.0 = 1043 and ?c1.0 = 0])
     (simp_all add: num_def item_def scenario_magnetic_def)

text \<open>
  The claim C9 as written covers every temperature; at 0 K the reduced temperature
  \<open>tau\<close> is 0, the branch \<open>tau < 1\<close> divides by \<open>140 * structural_parameter * tau\<close>,
  and the correction has no result.
\<close>

theorem magnetic_excesses_chs_zero_kelvin_counterexample:
  "magnetic_excesses_chs scenario_gas_constant (10 ^ 9) 0 scenario_magnetic = None"
  by (simp add: magnetic_excesses_chs_def num_def item_def fdiv_def scenario_magnetic_def)

end
